theory Spec2Isabelle
  imports Complex_Main
begin

section \<open>Values shared by the services\<close>

text \<open>
  JavaScript numbers that the program only passes around (coordinates, areas) are reals;
  the code does no arithmetic on them. Times are integer milliseconds, as \<open>Date.now()\<close>
  returns them. HTTP status codes are naturals.

  A thrown value is either an \<open>Error\<close> carrying its message, or anything else
  (\<open>error instanceof Error\<close> is false for it). A promise that rejects is \<open>Inl\<close> of
  the thrown value.
\<close>

datatype thrown = Error string | NonError

text \<open>\<open>error instanceof Error ? error.message : fallback\<close>\<close>

definition message_or :: "string \<Rightarrow> thrown \<Rightarrow> string" where
  "message_or fallback error = (case error of Error m \<Rightarrow> m | NonError \<Rightarrow> fallback)"

text \<open>
  What \<open>fetch\<close> gives back: the promise rejects (network failure), or it resolves to a
  response with \<open>ok\<close>, \<open>status\<close> and the outcome of \<open>response.json()\<close>, which itself
  rejects when the body is not JSON.
\<close>

datatype 'a fetch_outcome = Rejects thrown | Responds bool nat "thrown + 'a"

text \<open>Template-literal conversion of a status code: its decimal digits.\<close>

definition digit_char :: "nat \<Rightarrow> char" where
  "digit_char d = ''0123456789'' ! d"

fun string_of_nat :: "nat \<Rightarrow> string" where
  "string_of_nat n =
     (if n < 10 then [digit_char n] else string_of_nat (n div 10) @ [digit_char (n mod 10)])"

declare string_of_nat.simps [simp del]

text \<open>\<open>String.prototype.includes\<close>: does \<open>sub\<close> occur in \<open>s\<close> as a contiguous substring.\<close>

fun starts_with :: "string \<Rightarrow> string \<Rightarrow> bool" where
  "starts_with s [] = True"
| "starts_with [] (c # sub) = False"
| "starts_with (d # s) (c # sub) = (d = c \<and> starts_with s sub)"

fun includes_str :: "string \<Rightarrow> string \<Rightarrow> bool" where
  "includes_str [] sub = (sub = [])"
| "includes_str (c # s) sub = (starts_with (c # s) sub \<or> includes_str s sub)"

text \<open>
  \<open>String.prototype.trim\<close> on strings of 8-bit characters: the white space and line
  terminators of ECMAScript below code 256 are TAB, LF, VT, FF, CR, SPACE and NBSP.
\<close>

definition is_white_space :: "char \<Rightarrow> bool" where
  "is_white_space c = (of_char c \<in> {9, 10, 11, 12, 13, 32, 160 :: nat})"

definition trim :: "string \<Rightarrow> string" where
  "trim s = rev (dropWhile is_white_space (rev (dropWhile is_white_space s)))"

section \<open>types/index.ts\<close>

datatype geometry =
    Polygon "real list list list"
  | MultiPolygon "real list list list list"

record HUC8Properties =
  huc8 :: string
  name :: string
  states :: string
  areaacres :: "real option"
  areasqkm :: "real option"

record HUC8Feature =
  properties :: HUC8Properties
  geometry :: geometry

text \<open>\<open>features\<close> is read with \<open>data.features || []\<close> and \<open>!data.features\<close>: it may be absent.\<close>

record HUC8FeatureCollection =
  features :: "HUC8Feature list option"

record NominatimResult =
  lat :: string
  lon :: string
  display_name :: string

record GeocodingResult =
  lat :: real
  lng :: real
  displayName :: string

section \<open>The network and the clock\<close>

text \<open>
  A parameter value of a request: a plain string, or the JSON value that
  \<open>JSON.stringify\<close> serialises (a point, or rings with their \<open>wkid\<close>).
\<close>

datatype pvalue =
    Text string
  | EsriPoint real real
  | EsriRings "real list list list" nat

type_synonym params = "(string \<times> pvalue) list"

text \<open>A request as it leaves the browser, with the clock reading at that moment.\<close>

datatype request =
    NominatimGet int params
  | WbdPost int params

text \<open>
  The world outside the application object: the wall clock (\<open>Date.now()\<close>), the module
  variable \<open>lastRequestTime\<close> of the geocoder, and the requests issued so far, oldest
  first.
\<close>

record world =
  clock :: int
  lastRequestTime :: int
  requests :: "request list"

text \<open>
  \<open>fetch\<close> issues the request now; the answer arrives \<open>latency\<close> milliseconds later.
\<close>

definition fetch :: "(int \<Rightarrow> request) \<Rightarrow> nat \<Rightarrow> world \<Rightarrow> world" where
  "fetch req latency w =
     w\<lparr>requests := requests w @ [req (clock w)], clock := clock w + int latency\<rparr>"

section \<open>services/geocoder.ts\<close>

definition MIN_REQUEST_INTERVAL :: int where
  "MIN_REQUEST_INTERVAL = 1100"

definition resetRateLimiter :: "world \<Rightarrow> world" where
  "resetRateLimiter w = w\<lparr>lastRequestTime := 0\<rparr>"

text \<open>
  \<open>waitForRateLimit\<close> returns the delay it handed to \<open>setTimeout\<close> (\<open>None\<close> when it
  did not wait) and the world afterwards. A timer fires no earlier than asked; \<open>lag\<close>
  is how late it fires. The synchronous statements take no time.
\<close>

definition waitForRateLimit :: "nat \<Rightarrow> world \<Rightarrow> int option \<times> world" where
  "waitForRateLimit lag w =
     (let now = clock w;
          timeSinceLastRequest = now - lastRequestTime w
      in if lastRequestTime w > 0 \<and> timeSinceLastRequest < MIN_REQUEST_INTERVAL then
           let delay = MIN_REQUEST_INTERVAL - timeSinceLastRequest;
               w1 = w\<lparr>clock := now + delay + int lag\<rparr>
           in (Some delay, w1\<lparr>lastRequestTime := clock w1\<rparr>)
         else (None, w\<lparr>lastRequestTime := clock w\<rparr>))"

definition geocode_params :: "string \<Rightarrow> params" where
  "geocode_params query =
     [(''q'', Text query), (''format'', Text ''json''), (''limit'', Text ''1''),
      (''countrycodes'', Text ''us''), (''addressdetails'', Text ''1'')]"

text \<open>
  \<open>parseFloat\<close> is the built-in; \<open>lag\<close>, \<open>latency\<close> and \<open>resp\<close> are what the timer and
  the provider do during this call.
\<close>

definition geocodeAddress ::
  "(string \<Rightarrow> real) \<Rightarrow> nat \<Rightarrow> nat \<Rightarrow> NominatimResult list fetch_outcome \<Rightarrow> string \<Rightarrow> world
     \<Rightarrow> (thrown + GeocodingResult) \<times> world" where
  "geocodeAddress parseFloat lag latency resp query w =
     (let w1 = snd (waitForRateLimit lag w);
          w2 = fetch (\<lambda>t. NominatimGet t (geocode_params query)) latency w1
      in case resp of
           Rejects e \<Rightarrow> (Inl e, w2)
         | Responds ok status body \<Rightarrow>
             if \<not> ok then (Inl (Error (''Geocoding failed: '' @ string_of_nat status)), w2)
             else (case body of
                     Inl e \<Rightarrow> (Inl e, w2)
                   | Inr data \<Rightarrow>
                       if length data = 0 then
                         (Inl (Error ''Address not found. Please try a different search.''), w2)
                       else
                         (Inr \<lparr>GeocodingResult.lat = parseFloat (NominatimResult.lat (data ! 0)),
                               lng = parseFloat (lon (data ! 0)),
                               displayName = display_name (data ! 0)\<rparr>, w2)))"

section \<open>services/huc-service.ts\<close>

definition toEsriGeometry :: "geometry \<Rightarrow> pvalue" where
  "toEsriGeometry g =
     (case g of
        Polygon coordinates \<Rightarrow> EsriRings coordinates 4326
      | MultiPolygon coordinates \<Rightarrow> EsriRings (concat coordinates) 4326)"

definition queryWBD ::
  "nat \<Rightarrow> HUC8FeatureCollection fetch_outcome \<Rightarrow> params \<Rightarrow> world
     \<Rightarrow> (thrown + HUC8FeatureCollection) \<times> world" where
  "queryWBD latency resp ps w =
     (let w1 = fetch (\<lambda>t. WbdPost t ps) latency w
      in case resp of
           Rejects e \<Rightarrow> (Inl e, w1)
         | Responds ok status body \<Rightarrow>
             if \<not> ok then (Inl (Error (''API request failed: '' @ string_of_nat status)), w1)
             else (body, w1))"

definition point_params :: "real \<Rightarrow> real \<Rightarrow> params" where
  "point_params lat' lng' =
     [(''geometry'', EsriPoint lng' lat'),
      (''geometryType'', Text ''esriGeometryPoint''),
      (''inSR'', Text ''4326''),
      (''spatialRel'', Text ''esriSpatialRelIntersects''),
      (''outFields'', Text ''huc8,name,states,areaacres,areasqkm''),
      (''returnGeometry'', Text ''true''),
      (''outSR'', Text ''4326''),
      (''f'', Text ''geojson'')]"

text \<open>The \<open>try\<close> block of \<open>findHUC8ByPoint\<close>, then the function with its \<open>catch\<close>.\<close>

definition findHUC8ByPoint_try ::
  "nat \<Rightarrow> HUC8FeatureCollection fetch_outcome \<Rightarrow> real \<Rightarrow> real \<Rightarrow> world
     \<Rightarrow> (thrown + HUC8Feature) \<times> world" where
  "findHUC8ByPoint_try latency resp lat' lng' w =
     (case queryWBD latency resp (point_params lat' lng') w of
        (Inl e, w1) \<Rightarrow> (Inl e, w1)
      | (Inr data, w1) \<Rightarrow>
          (case features data of
             None \<Rightarrow>
               (Inl (Error (''No HUC8 found for this location. '' @
                            ''Please ensure the location is within the United States.'')), w1)
           | Some fs \<Rightarrow>
               if length fs = 0 then
                 (Inl (Error (''No HUC8 found for this location. '' @
                              ''Please ensure the location is within the United States.'')), w1)
               else (Inr (fs ! 0), w1)))"

definition findHUC8ByPoint ::
  "nat \<Rightarrow> HUC8FeatureCollection fetch_outcome \<Rightarrow> real \<Rightarrow> real \<Rightarrow> world
     \<Rightarrow> (thrown + HUC8Feature) \<times> world" where
  "findHUC8ByPoint latency resp lat' lng' w =
     (case findHUC8ByPoint_try latency resp lat' lng' w of
        (Inr feature, w1) \<Rightarrow> (Inr feature, w1)
      | (Inl error, w1) \<Rightarrow>
          (case error of
             Error m \<Rightarrow>
               if includes_str m ''No HUC8'' then (Inl error, w1)
               else (Inl (Error (''HUC8 lookup failed: '' @ m)), w1)
           | NonError \<Rightarrow> (Inl (Error (''HUC8 lookup failed: '' @ ''Unknown error'')), w1)))"

definition adjacent_params :: "geometry \<Rightarrow> params" where
  "adjacent_params g =
     [(''geometry'', toEsriGeometry g),
      (''geometryType'', Text ''esriGeometryPolygon''),
      (''inSR'', Text ''4326''),
      (''spatialRel'', Text ''esriSpatialRelTouches''),
      (''outFields'', Text ''huc8,name,states''),
      (''returnGeometry'', Text ''true''),
      (''outSR'', Text ''4326''),
      (''f'', Text ''geojson'')]"

definition findAdjacentHUC8s ::
  "nat \<Rightarrow> HUC8FeatureCollection fetch_outcome \<Rightarrow> geometry \<Rightarrow> world
     \<Rightarrow> (thrown + HUC8Feature list) \<times> world" where
  "findAdjacentHUC8s latency resp g w =
     (case queryWBD latency resp (adjacent_params g) w of
        (Inr data, w1) \<Rightarrow>
          (case features data of None \<Rightarrow> (Inr [], w1) | Some fs \<Rightarrow> (Inr fs, w1))
      | (Inl error, w1) \<Rightarrow>
          (Inl (Error (''Adjacent HUC8 lookup failed: '' @ message_or ''Unknown error'' error)), w1))"

section \<open>components/map-controller.ts\<close>

text \<open>
  The layers of the map. A feature layer remembers whether a click handler was bound to
  it; the only handler the application passes is the one that calls \<open>selectHUC8\<close>.
\<close>

datatype callback = CallSelectHUC8

record MapController =
  primaryHUCLayer :: "(HUC8Feature \<times> callback option) option"
  adjacentHUCLayer :: "(HUC8Feature \<times> callback option) list"
  markerLayer :: "(real \<times> real) list"

definition clearAll :: "MapController \<Rightarrow> MapController" where
  "clearAll m = m\<lparr>primaryHUCLayer := None, adjacentHUCLayer := [], markerLayer := []\<rparr>"

definition addSearchMarker :: "real \<Rightarrow> real \<Rightarrow> MapController \<Rightarrow> MapController" where
  "addSearchMarker lat' lng' m = m\<lparr>markerLayer := markerLayer m @ [(lat', lng')]\<rparr>"

definition displayPrimaryHUC ::
  "HUC8Feature \<Rightarrow> callback option \<Rightarrow> MapController \<Rightarrow> MapController" where
  "displayPrimaryHUC feature onClick m = m\<lparr>primaryHUCLayer := Some (feature, onClick)\<rparr>"

definition displayAdjacentHUCs ::
  "HUC8Feature list \<Rightarrow> callback option \<Rightarrow> MapController \<Rightarrow> MapController" where
  "displayAdjacentHUCs fs onClick m =
     m\<lparr>adjacentHUCLayer := adjacentHUCLayer m @ map (\<lambda>feature. (feature, onClick)) fs\<rparr>"

section \<open>app.ts\<close>

text \<open>
  The text of the area element: \<open>--\<close>, or the acres (shown through
  \<open>toLocaleString\<close>). The neighbour list: the placeholder item, or one button per
  feature, whose handler looks its code up in the list it was built from.
\<close>

datatype area_text = Dashes | Acres real

datatype adjacent_list = NoAdjacentItem | AdjacentButtons "HUC8Feature list"

record HUC8App =
  mapController :: MapController
  currentHUC8 :: "HUC8Feature option"
  addressInput_value :: string
  addressInput_disabled :: bool
  searchButton_disabled :: bool
  buttonText_hidden :: bool
  spinner_hidden :: bool
  errorMessage_text :: string
  errorMessage_hidden :: bool
  resultsPanel_hidden :: bool
  hucCodeEl :: string
  hucNameEl :: string
  hucStatesEl :: string
  hucAreaEl :: area_text
  adjacentListEl :: adjacent_list

definition showLoading :: "HUC8App \<Rightarrow> HUC8App" where
  "showLoading app =
     app\<lparr>addressInput_disabled := True, searchButton_disabled := True,
         buttonText_hidden := True, spinner_hidden := False\<rparr>"

definition hideLoading :: "HUC8App \<Rightarrow> HUC8App" where
  "hideLoading app =
     app\<lparr>addressInput_disabled := False, searchButton_disabled := False,
         buttonText_hidden := False, spinner_hidden := True\<rparr>"

definition showError :: "string \<Rightarrow> HUC8App \<Rightarrow> HUC8App" where
  "showError message app = app\<lparr>errorMessage_text := message, errorMessage_hidden := False\<rparr>"

definition hideError :: "HUC8App \<Rightarrow> HUC8App" where
  "hideError app = app\<lparr>errorMessage_hidden := True\<rparr>"

text \<open>\<open>props.areaacres ? ... : '--'\<close>: an absent area and the number 0 are both falsy.\<close>

definition updateInfoPanel :: "HUC8Properties \<Rightarrow> HUC8App \<Rightarrow> HUC8App" where
  "updateInfoPanel props app =
     app\<lparr>hucCodeEl := huc8 props, hucNameEl := name props, hucStatesEl := states props,
         hucAreaEl := (case areaacres props of
                         None \<Rightarrow> Dashes
                       | Some a \<Rightarrow> if a = 0 then Dashes else Acres a)\<rparr>"

definition updateAdjacentList :: "HUC8Feature list \<Rightarrow> HUC8App \<Rightarrow> HUC8App" where
  "updateAdjacentList fs app =
     (if length fs = 0 then app\<lparr>adjacentListEl := NoAdjacentItem\<rparr>
      else app\<lparr>adjacentListEl := AdjacentButtons fs\<rparr>)"

definition displayResults ::
  "GeocodingResult \<Rightarrow> HUC8Feature \<Rightarrow> HUC8Feature list \<Rightarrow> HUC8App \<Rightarrow> HUC8App" where
  "displayResults location huc8Feature adjacentFeatures app =
     (let m1 = clearAll (mapController app);
          m2 = addSearchMarker (lat location) (lng location) m1;
          m3 = displayPrimaryHUC huc8Feature None m2;
          m4 = displayAdjacentHUCs adjacentFeatures (Some CallSelectHUC8) m3;
          app1 = updateInfoPanel (properties huc8Feature) (app\<lparr>mapController := m4\<rparr>);
          app2 = updateAdjacentList adjacentFeatures app1
      in app2\<lparr>resultsPanel_hidden := False, currentHUC8 := Some huc8Feature\<rparr>)"

text \<open>What the timer and the providers do during one run of the pipeline.\<close>

record environment =
  parseFloat :: "string \<Rightarrow> real"
  timer_lag :: nat
  geocode_latency :: nat
  geocode_response :: "NominatimResult list fetch_outcome"
  point_latency :: nat
  point_response :: "HUC8FeatureCollection fetch_outcome"
  adjacent_latency :: nat
  adjacent_response :: "HUC8FeatureCollection fetch_outcome"

text \<open>The \<open>try\<close> block of \<open>handleSearch\<close>: the three lookups in sequence, then the display.\<close>

definition handleSearch_try ::
  "environment \<Rightarrow> string \<Rightarrow> HUC8App \<Rightarrow> world \<Rightarrow> (thrown + HUC8App) \<times> world" where
  "handleSearch_try env query app w =
     (case geocodeAddress (parseFloat env) (timer_lag env) (geocode_latency env)
             (geocode_response env) query w of
        (Inl e, w1) \<Rightarrow> (Inl e, w1)
      | (Inr location, w1) \<Rightarrow>
          (case findHUC8ByPoint (point_latency env) (point_response env)
                  (lat location) (lng location) w1 of
             (Inl e, w2) \<Rightarrow> (Inl e, w2)
           | (Inr huc8Feature, w2) \<Rightarrow>
               (case findAdjacentHUC8s (adjacent_latency env) (adjacent_response env)
                       (geometry huc8Feature) w2 of
                  (Inl e, w3) \<Rightarrow> (Inl e, w3)
                | (Inr adjacentFeatures, w3) \<Rightarrow>
                    (Inr (displayResults location huc8Feature adjacentFeatures app), w3))))"

definition handleSearch :: "environment \<Rightarrow> HUC8App \<Rightarrow> world \<Rightarrow> HUC8App \<times> world" where
  "handleSearch env app w =
     (let query = trim (addressInput_value app)
      in if query = [] then (showError ''Please enter an address or zip code.'' app, w)
         else
           let app1 = hideError (showLoading app)
           in case handleSearch_try env query app1 w of
                (Inr app2, w1) \<Rightarrow> (hideLoading app2, w1)
              | (Inl error, w1) \<Rightarrow>
                  (hideLoading (showError (message_or ''An unexpected error occurred.'' error) app1),
                   w1))"

text \<open>The \<open>try\<close> block of \<open>selectHUC8\<close>, then the function with \<open>catch\<close> and \<open>finally\<close>.\<close>

definition selectHUC8_try ::
  "nat \<Rightarrow> HUC8FeatureCollection fetch_outcome \<Rightarrow> HUC8Feature \<Rightarrow> HUC8App \<Rightarrow> world
     \<Rightarrow> (thrown + HUC8App) \<times> world" where
  "selectHUC8_try latency resp feature app w =
     (case findAdjacentHUC8s latency resp (geometry feature) w of
        (Inl e, w1) \<Rightarrow> (Inl e, w1)
      | (Inr adjacentFeatures, w1) \<Rightarrow>
          (let m1 = clearAll (mapController app);
               m2 = displayPrimaryHUC feature None m1;
               m3 = displayAdjacentHUCs adjacentFeatures (Some CallSelectHUC8) m2;
               app1 = updateInfoPanel (properties feature) (app\<lparr>mapController := m3\<rparr>);
               app2 = updateAdjacentList adjacentFeatures app1
           in (Inr (app2\<lparr>currentHUC8 := Some feature\<rparr>), w1)))"

definition selectHUC8 ::
  "nat \<Rightarrow> HUC8FeatureCollection fetch_outcome \<Rightarrow> HUC8Feature \<Rightarrow> HUC8App \<Rightarrow> world
     \<Rightarrow> HUC8App \<times> world" where
  "selectHUC8 latency resp feature app w =
     (let app1 = showLoading app
      in case selectHUC8_try latency resp feature app1 w of
           (Inr app2, w1) \<Rightarrow> (hideLoading app2, w1)
         | (Inl error, w1) \<Rightarrow>
             (hideLoading (showError (message_or ''Failed to load watershed.'' error) app1), w1))"

text \<open>
  The two ways to select a neighbour: a click on its layer on the map, and a click on its
  button in the list (\<open>features.find\<close> by the button's code). A layer without a handler
  and a code that is not found do nothing.
\<close>

definition click_adjacent_layer ::
  "nat \<Rightarrow> HUC8FeatureCollection fetch_outcome \<Rightarrow> nat \<Rightarrow> HUC8App \<Rightarrow> world
     \<Rightarrow> HUC8App \<times> world" where
  "click_adjacent_layer latency resp i app w =
     (if i < length (adjacentHUCLayer (mapController app)) then
        (case adjacentHUCLayer (mapController app) ! i of
           (feature, Some CallSelectHUC8) \<Rightarrow> selectHUC8 latency resp feature app w
         | (feature, None) \<Rightarrow> (app, w))
      else (app, w))"

definition click_adjacent_button ::
  "nat \<Rightarrow> HUC8FeatureCollection fetch_outcome \<Rightarrow> string \<Rightarrow> HUC8App \<Rightarrow> world
     \<Rightarrow> HUC8App \<times> world" where
  "click_adjacent_button latency resp hucCode app w =
     (case adjacentListEl app of
        NoAdjacentItem \<Rightarrow> (app, w)
      | AdjacentButtons fs \<Rightarrow>
          (case find (\<lambda>f. huc8 (properties f) = hucCode) fs of
             Some feature \<Rightarrow> selectHUC8 latency resp feature app w
           | None \<Rightarrow> (app, w)))"

section \<open>Fixtures\<close>

text \<open>
  The state of the geocoder module when it is loaded (\<open>let lastRequestTime = 0\<close>), with
  the clock reading \<open>t\<close> and no request issued yet.
\<close>

definition initial_world :: "int \<Rightarrow> world" where
  "initial_world t = \<lparr>clock = t, lastRequestTime = 0, requests = []\<rparr>"

text \<open>The two features of tests/huc-service.test.ts.\<close>

definition mockHUC8Feature :: HUC8Feature where
  "mockHUC8Feature =
     \<lparr>properties =
        \<lparr>huc8 = ''02070010'', name = ''Middle Potomac-Anacostia-Occoquan'',
         states = ''DC,MD,VA'', areaacres = Some 570189.5, areasqkm = Some 2307.5\<rparr>,
      geometry =
        Polygon [[[- 77.5, 38.5], [- 77.0, 38.5], [- 77.0, 39.0], [- 77.5, 39.0],
                  [- 77.5, 38.5]]]\<rparr>"

definition mockAdjacentFeature :: HUC8Feature where
  "mockAdjacentFeature =
     \<lparr>properties =
        \<lparr>huc8 = ''02070008'', name = ''Upper Potomac'', states = ''MD,VA,WV'',
         areaacres = None, areasqkm = None\<rparr>,
      geometry =
        Polygon [[[- 78.0, 39.0], [- 77.5, 39.0], [- 77.5, 39.5], [- 78.0, 39.5],
                  [- 78.0, 39.0]]]\<rparr>"

text \<open>
  The application right after its construction, on a page whose error message and results
  panel start hidden, with \<open>query\<close> typed into the address input; and the application
  showing \<open>mockHUC8Feature\<close> with \<open>mockAdjacentFeature\<close> as its only neighbour.
\<close>

definition idle_app :: "string \<Rightarrow> HUC8App" where
  "idle_app query =
     \<lparr>mapController = \<lparr>primaryHUCLayer = None, adjacentHUCLayer = [], markerLayer = []\<rparr>,
      currentHUC8 = None,
      addressInput_value = query,
      addressInput_disabled = False,
      searchButton_disabled = False,
      buttonText_hidden = False,
      spinner_hidden = True,
      errorMessage_text = [],
      errorMessage_hidden = True,
      resultsPanel_hidden = True,
      hucCodeEl = [],
      hucNameEl = [],
      hucStatesEl = [],
      hucAreaEl = Dashes,
      adjacentListEl = NoAdjacentItem\<rparr>"

definition results_shown_app :: HUC8App where
  "results_shown_app =
     displayResults \<lparr>GeocodingResult.lat = 38.8977, lng = - 77.0365, displayName = ''Washington''\<rparr>
       mockHUC8Feature [mockAdjacentFeature] (idle_app ''Washington'')"

text \<open>A run of the pipeline in which the geocoder answers and the boundary provider is down.\<close>

definition boundary_down :: environment where
  "boundary_down =
     \<lparr>parseFloat = (\<lambda>s. if s = ''38.8977'' then 38.8977 else - 77.0365),
      timer_lag = 0,
      geocode_latency = 40,
      geocode_response =
        Responds True 200
          (Inr [\<lparr>NominatimResult.lat = ''38.8977'', lon = ''-77.0365'',
                 display_name = ''Washington''\<rparr>]),
      point_latency = 30,
      point_response = Responds False 500 (Inl NonError),
      adjacent_latency = 0,
      adjacent_response = Rejects NonError\<rparr>"

section \<open>Strings\<close>

lemma starts_with_iff: "starts_with s sub \<longleftrightarrow> (\<exists>q. s = sub @ q)"
  by (induction s sub rule: starts_with.induct) auto

lemma includes_str_iff: "includes_str s sub \<longleftrightarrow> (\<exists>p q. s = p @ sub @ q)"
proof (induction s)
  case Nil
  then show ?case by auto
next
  case (Cons c s)
  show ?case
  proof
    assume "includes_str (c # s) sub"
    then consider "starts_with (c # s) sub" | "includes_str s sub" by auto
    then show "\<exists>p q. c # s = p @ sub @ q"
    proof cases
      case 1
      then obtain q where "c # s = sub @ q" using starts_with_iff by blast
      then have "c # s = [] @ sub @ q" by simp
      then show ?thesis by blast
    next
      case 2
      then obtain p q where "s = p @ sub @ q" using Cons.IH by blast
      then have "c # s = (c # p) @ sub @ q" by simp
      then show ?thesis by blast
    qed
  next
    assume "\<exists>p q. c # s = p @ sub @ q"
    then obtain p q where pq: "c # s = p @ sub @ q" by blast
    show "includes_str (c # s) sub"
    proof (cases p)
      case Nil
      with pq have "starts_with (c # s) sub" using starts_with_iff by auto
      then show ?thesis by simp
    next
      case (Cons d p')
      with pq have "s = p' @ sub @ q" by simp
      then have "includes_str s sub" using Cons.IH by blast
      then show ?thesis by simp
    qed
  qed
qed

lemma includes_str_append_right: "includes_str (p @ sub) sub"
  unfolding includes_str_iff by (metis append_Nil2)

lemma includes_str_set: "includes_str s sub \<Longrightarrow> set sub \<subseteq> set s"
  unfolding includes_str_iff by auto

lemma trim_empty_iff: "trim s = [] \<longleftrightarrow> (\<forall>c \<in> set s. is_white_space c)"
proof
  assume "trim s = []"
  then have "dropWhile is_white_space (rev (dropWhile is_white_space s)) = []"
    by (simp add: trim_def)
  then have "\<forall>c \<in> set (dropWhile is_white_space s). is_white_space c"
    by (simp add: dropWhile_eq_Nil_conv)
  then have "dropWhile is_white_space s = []"
    by (metis hd_dropWhile list.set_sel(1))
  then show "\<forall>c \<in> set s. is_white_space c"
    by (simp add: dropWhile_eq_Nil_conv)
next
  assume "\<forall>c \<in> set s. is_white_space c"
  then have h: "dropWhile is_white_space s = []" by simp
  show "trim s = []" unfolding trim_def h by simp
qed

lemma digit_char_digit: "d < 10 \<Longrightarrow> digit_char d \<in> set ''0123456789''"
  unfolding digit_char_def by (rule nth_mem) simp

lemma string_of_nat_digits: "set (string_of_nat n) \<subseteq> set ''0123456789''"
proof (induction n rule: string_of_nat.induct)
  case (1 n)
  show ?case
  proof (cases "n < 10")
    case True
    then show ?thesis
      using digit_char_digit [of n] by (subst string_of_nat.simps) simp
  next
    case False
    then show ?thesis
      using 1 digit_char_digit [of "n mod 10"] by (subst string_of_nat.simps) simp
  qed
qed

lemma string_of_nat_no_N: "CHR ''N'' \<notin> set (string_of_nat n)"
  using string_of_nat_digits [of n] by auto

section \<open>The rate limiter\<close>

lemma waitForRateLimit_records:
  "lastRequestTime (snd (waitForRateLimit lag w)) = clock (snd (waitForRateLimit lag w))"
  by (simp add: waitForRateLimit_def Let_def)

lemma waitForRateLimit_spacing:
  "0 < lastRequestTime w \<Longrightarrow>
   lastRequestTime w + MIN_REQUEST_INTERVAL \<le> clock (snd (waitForRateLimit lag w))"
  by (simp add: waitForRateLimit_def Let_def)

lemma waitForRateLimit_positive:
  "0 < clock w \<Longrightarrow> 0 < clock (snd (waitForRateLimit lag w))"
  by (simp add: waitForRateLimit_def Let_def MIN_REQUEST_INTERVAL_def)

lemma waitForRateLimit_requests:
  "requests (snd (waitForRateLimit lag w)) = requests w"
  by (simp add: waitForRateLimit_def Let_def)

lemma waitForRateLimit_first:
  "lastRequestTime w = 0 \<Longrightarrow>
   waitForRateLimit lag w = (None, w\<lparr>lastRequestTime := clock w\<rparr>)"
  by (simp add: waitForRateLimit_def Let_def)

text \<open>
  The code keeps 0 in \<open>lastRequestTime\<close> for "never called", so a timestamp of 0 is
  not told apart from no timestamp: after an acquisition at clock 0 the next one does not
  wait. Wall-clock readings are positive, which is what the theorem below assumes.
\<close>

lemma waitForRateLimit_at_epoch:
  "fst (waitForRateLimit lag (snd (waitForRateLimit lag' (initial_world 0)))) = None"
  by (simp add: waitForRateLimit_def initial_world_def Let_def)

text \<open>
  Claim C3. Take two successive acquisitions, the first at a positive clock reading, with
  any amount of time (and anything that leaves \<open>lastRequestTime\<close> alone) in between.
  When the second returns, at least 1100 ms have passed since the timestamp the first one
  recorded, and the second has recorded the clock reading of its return as the new
  timestamp; if fewer than 1100 ms had passed when it was called, it sleeps for exactly the
  missing time. An acquisition in the initial state of the module, and one right after
  \<open>resetRateLimiter\<close>, sets no timer and returns at the clock reading it was called at.
\<close>

theorem rate_limiter_spacing:
  assumes "0 < clock w0"
    and "w1 = snd (waitForRateLimit lag1 w0)"
    and "lastRequestTime w1' = lastRequestTime w1"
    and "clock w1 \<le> clock w1'"
    and "w2 = snd (waitForRateLimit lag2 w1')"
  shows "lastRequestTime w1 + 1100 \<le> clock w2
       \<and> lastRequestTime w2 = clock w2
       \<and> (clock w1' - lastRequestTime w1 < 1100 \<longrightarrow>
            fst (waitForRateLimit lag2 w1') = Some (1100 - (clock w1' - lastRequestTime w1)))
       \<and> fst (waitForRateLimit lag (initial_world t)) = None
       \<and> clock (snd (waitForRateLimit lag (initial_world t))) = t
       \<and> fst (waitForRateLimit lag (resetRateLimiter w)) = None
       \<and> clock (snd (waitForRateLimit lag (resetRateLimiter w))) = clock w"
proof -
  have pos: "0 < lastRequestTime w1"
    using assms(1,2) waitForRateLimit_positive [of w0 lag1] waitForRateLimit_records [of lag1 w0]
    by simp
  then have pos': "0 < lastRequestTime w1'" using assms(3) by simp
  have a: "lastRequestTime w1 + 1100 \<le> clock w2"
    using waitForRateLimit_spacing [OF pos', of lag2] assms(3,5)
    by (simp add: MIN_REQUEST_INTERVAL_def)
  have b: "lastRequestTime w2 = clock w2"
    using assms(5) waitForRateLimit_records by simp
  have c: "clock w1' - lastRequestTime w1 < 1100 \<longrightarrow>
            fst (waitForRateLimit lag2 w1') = Some (1100 - (clock w1' - lastRequestTime w1))"
    using pos' assms(3) by (simp add: waitForRateLimit_def Let_def MIN_REQUEST_INTERVAL_def)
  have d: "fst (waitForRateLimit lag (initial_world t)) = None"
    "clock (snd (waitForRateLimit lag (initial_world t))) = t"
    by (simp_all add: waitForRateLimit_first initial_world_def)
  have e: "fst (waitForRateLimit lag (resetRateLimiter w)) = None"
    "clock (snd (waitForRateLimit lag (resetRateLimiter w))) = clock w"
    by (simp_all add: waitForRateLimit_first resetRateLimiter_def)
  show ?thesis using a b c d e by blast
qed

theorem rate_limiter_spacing_witness:
  "0 < clock (initial_world 5000)
   \<and> snd (waitForRateLimit 0 (initial_world 5000)) =
       \<lparr>clock = 5000, lastRequestTime = 5000, requests = []\<rparr>
   \<and> fst (waitForRateLimit 3 \<lparr>clock = 5100, lastRequestTime = 5000, requests = []\<rparr>) = Some 1000
   \<and> snd (waitForRateLimit 3 \<lparr>clock = 5100, lastRequestTime = 5000, requests = []\<rparr>) =
       \<lparr>clock = 6103, lastRequestTime = 6103, requests = []\<rparr>
   \<and> (5000 :: int) + 1100 \<le> 6103"
proof -
  let ?w1 = "\<lparr>clock = 5000, lastRequestTime = 5000, requests = []\<rparr>"
  let ?w1' = "\<lparr>clock = 5100, lastRequestTime = 5000, requests = []\<rparr>"
  let ?w2 = "\<lparr>clock = 6103, lastRequestTime = 6103, requests = []\<rparr>"
  have h1: "0 < clock (initial_world 5000)" by (simp add: initial_world_def)
  have h2: "snd (waitForRateLimit 0 (initial_world 5000)) = ?w1"
    by (simp add: waitForRateLimit_def initial_world_def Let_def)
  have h3: "lastRequestTime ?w1' = lastRequestTime ?w1" by simp
  have h4: "clock ?w1 \<le> clock ?w1'" by simp
  have h5: "snd (waitForRateLimit 3 ?w1') = ?w2"
    by (simp add: waitForRateLimit_def Let_def MIN_REQUEST_INTERVAL_def)
  show ?thesis
    using rate_limiter_spacing [OF h1 h2 [symmetric] h3 h4 h5 [symmetric]] h1 h2 h5
    by simp
qed

section \<open>The geocode resolver\<close>

lemma geocodeAddress_world:
  "snd (geocodeAddress pf lag latency resp q w) =
     fetch (\<lambda>t. NominatimGet t (geocode_params q)) latency (snd (waitForRateLimit lag w))"
  by (simp add: geocodeAddress_def Let_def split: fetch_outcome.split sum.split)

text \<open>
  Claim C6. A response that is not successful makes \<open>geocodeAddress\<close> fail with
  \<open>Geocoding failed: \<close> followed by the status code in decimal; a successful response
  with an empty result list makes it fail with the "Address not found" message; a
  successful response with at least one result returns the first one, its \<open>lat\<close> and
  \<open>lon\<close> strings passed through \<open>parseFloat\<close>.
\<close>

theorem geocodeAddress_outcomes:
  "fst (geocodeAddress pf lag latency (Responds False status body) q w) =
     Inl (Error (''Geocoding failed: '' @ string_of_nat status))
   \<and> includes_str (''Geocoding failed: '' @ string_of_nat status) (string_of_nat status)
   \<and> fst (geocodeAddress pf lag latency (Responds True status (Inr [])) q w) =
       Inl (Error ''Address not found. Please try a different search.'')
   \<and> includes_str ''Address not found. Please try a different search.'' ''Address not found''
   \<and> fst (geocodeAddress pf lag latency (Responds True status (Inr (r # rs))) q w) =
       Inr \<lparr>GeocodingResult.lat = pf (NominatimResult.lat r), lng = pf (lon r),
            displayName = display_name r\<rparr>"
proof -
  have a: "includes_str (''Geocoding failed: '' @ string_of_nat status) (string_of_nat status)"
    by (rule includes_str_append_right)
  have b: "includes_str ''Address not found. Please try a different search.'' ''Address not found''"
    by simp
  show ?thesis
    unfolding geocodeAddress_def Let_def using a b by simp
qed

theorem geocodeAddress_outcomes_witness:
  "fst (geocodeAddress (\<lambda>s. if s = ''38.8977'' then 38.8977 else - 77.0365) 0 40
          (Responds False 500 (Inr [])) ''Denver'' (initial_world 7000)) =
     Inl (Error ''Geocoding failed: 500'')
   \<and> includes_str ''Geocoding failed: 500'' ''500''
   \<and> fst (geocodeAddress (\<lambda>s. if s = ''38.8977'' then 38.8977 else - 77.0365) 0 40
          (Responds True 200 (Inr [])) ''Denver'' (initial_world 7000)) =
     Inl (Error ''Address not found. Please try a different search.'')
   \<and> fst (geocodeAddress (\<lambda>s. if s = ''38.8977'' then 38.8977 else - 77.0365) 0 40
          (Responds True 200
             (Inr [\<lparr>NominatimResult.lat = ''38.8977'', lon = ''-77.0365'',
                    display_name = ''Washington''\<rparr>]))
          ''Denver'' (initial_world 7000)) =
     Inr \<lparr>GeocodingResult.lat = 38.8977, lng = - 77.0365, displayName = ''Washington''\<rparr>"
proof -
  have s: "string_of_nat 500 = ''500''"
    by (simp add: string_of_nat.simps digit_char_def)
  show ?thesis
    using geocodeAddress_outcomes
      [where pf = "\<lambda>s. if s = ''38.8977'' then 38.8977 else - 77.0365" and lag = 0
         and latency = 40 and status = 500 and body = "Inr []" and q = "''Denver''"
         and w = "initial_world 7000"
         and r = "\<lparr>NominatimResult.lat = ''38.8977'', lon = ''-77.0365'',
                    display_name = ''Washington''\<rparr>" and rs = "[]"]
      geocodeAddress_outcomes
      [where pf = "\<lambda>s. if s = ''38.8977'' then 38.8977 else - 77.0365" and lag = 0
         and latency = 40 and status = 200 and body = "Inr []" and q = "''Denver''"
         and w = "initial_world 7000"
         and r = "\<lparr>NominatimResult.lat = ''38.8977'', lon = ''-77.0365'',
                    display_name = ''Washington''\<rparr>" and rs = "[]"]
    by (simp add: s)
qed

text \<open>
  Claim C9. Whatever the provider answers (a failure included), the request of a geocoding
  call leaves at exactly the clock reading that the call has stored in
  \<open>lastRequestTime\<close>, and the answer, which arrives \<open>latency\<close> later, does not touch
  the timestamp. The request of the next geocoding call therefore leaves at least 1100 ms
  after the previous one, also when the previous call failed.
\<close>

theorem geocode_timestamp_before_request:
  assumes "0 < clock w0"
    and "geocodeAddress pf lag1 latency1 resp1 q1 w0 = (r1, w1)"
    and "lastRequestTime w1' = lastRequestTime w1"
    and "clock w1 \<le> clock w1'"
    and "requests w1' = requests w1"
    and "geocodeAddress pf lag2 latency2 resp2 q2 w1' = (r2, w2)"
  shows "requests w1 = requests w0 @ [NominatimGet (lastRequestTime w1) (geocode_params q1)]
       \<and> clock w1 = lastRequestTime w1 + int latency1
       \<and> requests w2 = requests w1 @ [NominatimGet (lastRequestTime w2) (geocode_params q2)]
       \<and> lastRequestTime w1 + 1100 \<le> lastRequestTime w2"
proof -
  let ?a = "snd (waitForRateLimit lag1 w0)"
  let ?b = "snd (waitForRateLimit lag2 w1')"
  have w1: "w1 = fetch (\<lambda>t. NominatimGet t (geocode_params q1)) latency1 ?a"
    using assms(2) geocodeAddress_world [of pf lag1 latency1 resp1 q1 w0] by simp
  have w2: "w2 = fetch (\<lambda>t. NominatimGet t (geocode_params q2)) latency2 ?b"
    using assms(6) geocodeAddress_world [of pf lag2 latency2 resp2 q2 w1'] by simp
  have l1: "lastRequestTime w1 = clock ?a"
    unfolding w1 by (simp add: fetch_def waitForRateLimit_records)
  have l2: "lastRequestTime w2 = clock ?b"
    unfolding w2 by (simp add: fetch_def waitForRateLimit_records)
  have a: "requests w1 = requests w0 @ [NominatimGet (lastRequestTime w1) (geocode_params q1)]"
    unfolding l1 unfolding w1 by (simp add: fetch_def waitForRateLimit_requests)
  have b: "clock w1 = lastRequestTime w1 + int latency1"
    unfolding l1 unfolding w1 by (simp add: fetch_def)
  have c: "requests w2 = requests w1 @ [NominatimGet (lastRequestTime w2) (geocode_params q2)]"
    unfolding l2 unfolding w2 by (simp add: fetch_def waitForRateLimit_requests assms(5))
  have "0 < lastRequestTime w1"
    unfolding l1 using assms(1) by (rule waitForRateLimit_positive)
  then have "0 < lastRequestTime w1'" using assms(3) by simp
  then have "lastRequestTime w1' + MIN_REQUEST_INTERVAL \<le> clock ?b"
    by (rule waitForRateLimit_spacing)
  then have d: "lastRequestTime w1 + 1100 \<le> lastRequestTime w2"
    unfolding l2 using assms(3) by (simp add: MIN_REQUEST_INTERVAL_def)
  show ?thesis using a b c d by blast
qed

theorem geocode_timestamp_before_request_witness:
  "0 < clock (initial_world 7000)
   \<and> geocodeAddress (\<lambda>s. 0) 0 40 (Responds False 500 (Inr [])) ''Denver'' (initial_world 7000) =
       (Inl (Error ''Geocoding failed: 500''),
        \<lparr>clock = 7040, lastRequestTime = 7000,
         requests = [NominatimGet 7000 (geocode_params ''Denver'')]\<rparr>)
   \<and> requests (snd (geocodeAddress (\<lambda>s. 0) 3 25 (Responds True 200 (Inr [])) ''Boulder''
        \<lparr>clock = 7040, lastRequestTime = 7000,
         requests = [NominatimGet 7000 (geocode_params ''Denver'')]\<rparr>)) =
       [NominatimGet 7000 (geocode_params ''Denver''),
        NominatimGet 8103 (geocode_params ''Boulder'')]
   \<and> (7000 :: int) + 1100 \<le> 8103"
proof -
  let ?w1 = "\<lparr>clock = 7040, lastRequestTime = 7000,
               requests = [NominatimGet 7000 (geocode_params ''Denver'')]\<rparr>"
  let ?w2 = "\<lparr>clock = 8128, lastRequestTime = 8103,
               requests = [NominatimGet 7000 (geocode_params ''Denver''),
                           NominatimGet 8103 (geocode_params ''Boulder'')]\<rparr>"
  have s: "string_of_nat 500 = ''500''"
    by (simp add: string_of_nat.simps digit_char_def)
  have h1: "0 < clock (initial_world 7000)" by (simp add: initial_world_def)
  have h2: "geocodeAddress (\<lambda>s. 0) 0 40 (Responds False 500 (Inr [])) ''Denver'' (initial_world 7000) =
              (Inl (Error ''Geocoding failed: 500''), ?w1)"
    by (simp add: geocodeAddress_def waitForRateLimit_def fetch_def initial_world_def Let_def s)
  have h6: "geocodeAddress (\<lambda>s. 0) 3 25 (Responds True 200 (Inr [])) ''Boulder'' ?w1 =
              (Inl (Error ''Address not found. Please try a different search.''), ?w2)"
    by (simp add: geocodeAddress_def waitForRateLimit_def fetch_def Let_def
          MIN_REQUEST_INTERVAL_def)
  show ?thesis
    using geocode_timestamp_before_request [OF h1 h2 refl order_refl refl h6] h1 h2 h6
    by simp
qed

section \<open>The boundary locator and the adjacency resolver\<close>

lemma queryWBD_world:
  "snd (queryWBD latency resp ps w) = fetch (\<lambda>t. WbdPost t ps) latency w"
  by (simp add: queryWBD_def Let_def split: fetch_outcome.split)

lemma findAdjacentHUC8s_world:
  "snd (findAdjacentHUC8s latency resp g w) = fetch (\<lambda>t. WbdPost t (adjacent_params g)) latency w"
  using queryWBD_world [of latency resp "adjacent_params g" w]
  by (auto simp: findAdjacentHUC8s_def split: prod.splits sum.splits option.splits)

lemma findHUC8ByPoint_try_world:
  "snd (findHUC8ByPoint_try latency resp y x w) = fetch (\<lambda>t. WbdPost t (point_params y x)) latency w"
  using queryWBD_world [of latency resp "point_params y x" w]
  by (auto simp: findHUC8ByPoint_try_def split: prod.splits sum.splits option.splits)

lemma findHUC8ByPoint_world:
  "snd (findHUC8ByPoint latency resp y x w) = fetch (\<lambda>t. WbdPost t (point_params y x)) latency w"
  using findHUC8ByPoint_try_world [of latency resp y x w]
  by (auto simp: findHUC8ByPoint_def split: prod.splits sum.splits thrown.splits)

lemma findAdjacentHUC8s_unfiltered:
  "fst (findAdjacentHUC8s latency (Responds True status (Inr \<lparr>features = Some fs\<rparr>)) g w) = Inr fs"
  by (simp add: findAdjacentHUC8s_def queryWBD_def Let_def)

text \<open>
  Claim C1 (the code does not do this). The provider answers with the source feature and
  one neighbour; \<open>findAdjacentHUC8s\<close> takes no source code and returns the answer as it
  is: two features, the first of which carries the code of the source.
\<close>

theorem findAdjacentHUC8s_returns_source:
  "fst (findAdjacentHUC8s 0
          (Responds True 200 (Inr \<lparr>features = Some [mockHUC8Feature, mockAdjacentFeature]\<rparr>))
          (geometry mockHUC8Feature) (initial_world 1000)) =
     Inr [mockHUC8Feature, mockAdjacentFeature]
   \<and> map (\<lambda>f. huc8 (properties f)) [mockHUC8Feature, mockAdjacentFeature] =
       [''02070010'', ''02070008'']
   \<and> huc8 (properties mockHUC8Feature) = ''02070010''"
  by (simp add: findAdjacentHUC8s_def queryWBD_def Let_def mockHUC8Feature_def
        mockAdjacentFeature_def)

text \<open>
  Claim C2 (the code does not do this). The request that \<open>findAdjacentHUC8s\<close> issues
  carries \<open>spatialRel=esriSpatialRelTouches\<close>, not \<open>esriSpatialRelIntersects\<close>; the
  point lookup does carry \<open>esriSpatialRelIntersects\<close>.
\<close>

theorem findAdjacentHUC8s_touches:
  "map_of (adjacent_params g) ''spatialRel'' = Some (Text ''esriSpatialRelTouches'')
   \<and> requests (snd (findAdjacentHUC8s latency resp g w)) =
       requests w @ [WbdPost (clock w) (adjacent_params g)]
   \<and> map_of (adjacent_params g) ''spatialRel'' \<noteq> Some (Text ''esriSpatialRelIntersects'')
   \<and> map_of (point_params y x) ''spatialRel'' = Some (Text ''esriSpatialRelIntersects'')"
  by (simp add: findAdjacentHUC8s_world fetch_def adjacent_params_def point_params_def)

lemma includes_str_skip_prefix:
  "c \<notin> set p \<Longrightarrow> includes_str (p @ s) (c # sub) \<Longrightarrow> includes_str s (c # sub)"
  by (induction p) auto

lemma wrapped_has_no_marker:
  assumes "\<not> includes_str m ''No HUC8''"
  shows "\<not> includes_str (''HUC8 lookup failed: '' @ m) ''No HUC8''"
proof
  assume a: "includes_str (''HUC8 lookup failed: '' @ m) ''No HUC8''"
  have "CHR ''N'' \<notin> set ''HUC8 lookup failed: ''" by simp
  then have "includes_str m ''No HUC8''"
    using a by (rule includes_str_skip_prefix)
  with assms show False by simp
qed

lemma api_failed_has_no_marker:
  "\<not> includes_str (''API request failed: '' @ string_of_nat status) ''No HUC8''"
proof
  assume "includes_str (''API request failed: '' @ string_of_nat status) ''No HUC8''"
  then have "set ''No HUC8'' \<subseteq> set (''API request failed: '' @ string_of_nat status)"
    by (rule includes_str_set)
  then have "CHR ''N'' \<in> set ''API request failed: '' \<union> set (string_of_nat status)"
    by auto
  then show False using string_of_nat_no_N [of status] by simp
qed

lemma findHUC8ByPoint_zero_features:
  assumes "features data = None \<or> features data = Some []"
  shows "fst (findHUC8ByPoint latency (Responds True status (Inr data)) y x w) =
           Inl (Error (''No HUC8 found for this location. '' @
                       ''Please ensure the location is within the United States.''))"
  using assms
  by (auto simp: findHUC8ByPoint_def findHUC8ByPoint_try_def queryWBD_def Let_def)

lemma findHUC8ByPoint_try_query_failure:
  "fst (queryWBD latency resp (point_params y x) w) = Inl e \<Longrightarrow>
   fst (findHUC8ByPoint_try latency resp y x w) = Inl e"
  by (auto simp: findHUC8ByPoint_try_def split: prod.splits sum.splits)

lemma findHUC8ByPoint_rethrow:
  "fst (findHUC8ByPoint_try latency resp y x w) = Inl (Error m) \<Longrightarrow> includes_str m ''No HUC8'' \<Longrightarrow>
   fst (findHUC8ByPoint latency resp y x w) = Inl (Error m)"
  by (auto simp: findHUC8ByPoint_def split: prod.splits sum.splits)

lemma findHUC8ByPoint_wrap:
  "fst (findHUC8ByPoint_try latency resp y x w) = Inl e \<Longrightarrow>
   \<forall>m. e = Error m \<longrightarrow> \<not> includes_str m ''No HUC8'' \<Longrightarrow>
   fst (findHUC8ByPoint latency resp y x w) =
     Inl (Error (''HUC8 lookup failed: '' @ message_or ''Unknown error'' e))"
  by (auto simp: findHUC8ByPoint_def message_or_def split: prod.splits sum.splits thrown.splits)

text \<open>
  Claim C7 as stated fails: a failure of the query whose message contains \<open>No HUC8\<close> is
  passed on as it is, not wrapped. Here \<open>response.json()\<close> rejects on a body that is
  not JSON, with a message that quotes the start of the body.
\<close>

theorem findHUC8ByPoint_unwrapped_failure:
  "fst (queryWBD 0
          (Responds True 200 (Inl (Error ''Unexpected token N, No HUC8 data... is not valid JSON'')))
          (point_params 38.8977 (- 77.0365)) (initial_world 1000)) =
     Inl (Error ''Unexpected token N, No HUC8 data... is not valid JSON'')
   \<and> fst (findHUC8ByPoint 0
          (Responds True 200 (Inl (Error ''Unexpected token N, No HUC8 data... is not valid JSON'')))
          38.8977 (- 77.0365) (initial_world 1000)) =
     Inl (Error ''Unexpected token N, No HUC8 data... is not valid JSON'')
   \<and> fst (findHUC8ByPoint 0
          (Responds True 200 (Inl (Error ''Unexpected token N, No HUC8 data... is not valid JSON'')))
          38.8977 (- 77.0365) (initial_world 1000)) \<noteq>
     Inl (Error (''HUC8 lookup failed: '' @
                 ''Unexpected token N, No HUC8 data... is not valid JSON''))"
  by (simp add: findHUC8ByPoint_def findHUC8ByPoint_try_def queryWBD_def Let_def)

text \<open>
  Claim C7, amended. When the provider returns no features (none, or an empty list),
  \<open>findHUC8ByPoint\<close> fails with a message that contains \<open>No HUC8 found\<close> and names the
  United States. When the query itself fails with a thrown value whose message does not
  contain \<open>No HUC8\<close>, it fails with \<open>HUC8 lookup failed: \<close> followed by that message
  (\<open>Unknown error\<close> for a value that is not an \<open>Error\<close>), and this message never
  contains \<open>No HUC8\<close>, so the two kinds are told apart by that substring. A response
  that is not successful is such a failure, and its message contains the status code.
\<close>

theorem findHUC8ByPoint_failure_kinds:
  assumes zero: "features data = None \<or> features data = Some []"
    and other: "fst (queryWBD latency resp (point_params y x) w) = Inl e"
    and nomark: "\<forall>m. e = Error m \<longrightarrow> \<not> includes_str m ''No HUC8''"
  shows "fst (findHUC8ByPoint latency (Responds True status (Inr data)) y x w) =
           Inl (Error (''No HUC8 found for this location. '' @
                       ''Please ensure the location is within the United States.''))
       \<and> includes_str (''No HUC8 found for this location. '' @
                        ''Please ensure the location is within the United States.'') ''No HUC8 found''
       \<and> includes_str (''No HUC8 found for this location. '' @
                        ''Please ensure the location is within the United States.'')
            ''within the United States''
       \<and> fst (findHUC8ByPoint latency resp y x w) =
           Inl (Error (''HUC8 lookup failed: '' @ message_or ''Unknown error'' e))
       \<and> \<not> includes_str (''HUC8 lookup failed: '' @ message_or ''Unknown error'' e) ''No HUC8''
       \<and> fst (findHUC8ByPoint latency (Responds False status' body) y x w) =
           Inl (Error (''HUC8 lookup failed: '' @ ''API request failed: '' @ string_of_nat status'))
       \<and> includes_str (''HUC8 lookup failed: '' @ ''API request failed: '' @ string_of_nat status')
            (string_of_nat status')"
proof -
  have a: "fst (findHUC8ByPoint latency (Responds True status (Inr data)) y x w) =
           Inl (Error (''No HUC8 found for this location. '' @
                       ''Please ensure the location is within the United States.''))"
    using zero by (rule findHUC8ByPoint_zero_features)
  have b: "includes_str (''No HUC8 found for this location. '' @
                        ''Please ensure the location is within the United States.'') ''No HUC8 found''"
    by simp
  have c: "includes_str (''No HUC8 found for this location. '' @
                        ''Please ensure the location is within the United States.'')
            ''within the United States''"
    by simp
  have d: "fst (findHUC8ByPoint latency resp y x w) =
           Inl (Error (''HUC8 lookup failed: '' @ message_or ''Unknown error'' e))"
    using findHUC8ByPoint_try_query_failure [OF other] nomark by (rule findHUC8ByPoint_wrap)
  have "\<not> includes_str (message_or ''Unknown error'' e) ''No HUC8''"
    using nomark by (cases e) (simp_all add: message_or_def)
  then have e: "\<not> includes_str (''HUC8 lookup failed: '' @ message_or ''Unknown error'' e) ''No HUC8''"
    by (rule wrapped_has_no_marker)
  have q: "fst (queryWBD latency (Responds False status' body) (point_params y x) w) =
             Inl (Error (''API request failed: '' @ string_of_nat status'))"
    by (simp add: queryWBD_def Let_def)
  have "fst (findHUC8ByPoint latency (Responds False status' body) y x w) =
           Inl (Error (''HUC8 lookup failed: '' @
             message_or ''Unknown error'' (Error (''API request failed: '' @ string_of_nat status'))))"
    using findHUC8ByPoint_try_query_failure [OF q] api_failed_has_no_marker
    by (intro findHUC8ByPoint_wrap) auto
  then have f: "fst (findHUC8ByPoint latency (Responds False status' body) y x w) =
           Inl (Error (''HUC8 lookup failed: '' @ ''API request failed: '' @ string_of_nat status'))"
    by (simp add: message_or_def)
  have g: "includes_str (''HUC8 lookup failed: '' @ ''API request failed: '' @ string_of_nat status')
            (string_of_nat status')"
    using includes_str_append_right [of "''HUC8 lookup failed: '' @ ''API request failed: ''" "string_of_nat status'"]
    by simp
  show ?thesis using a b c d e f g by blast
qed

theorem findHUC8ByPoint_failure_kinds_witness:
  "fst (findHUC8ByPoint 0 (Responds True 200 (Inr \<lparr>features = Some []\<rparr>)) 51.5074 (- 0.1278)
          (initial_world 1000)) =
     Inl (Error ''No HUC8 found for this location. Please ensure the location is within the United States.'')
   \<and> fst (findHUC8ByPoint 0 (Rejects (Error ''Failed to fetch'')) 51.5074 (- 0.1278)
          (initial_world 1000)) =
     Inl (Error ''HUC8 lookup failed: Failed to fetch'')
   \<and> \<not> includes_str ''HUC8 lookup failed: Failed to fetch'' ''No HUC8''
   \<and> fst (findHUC8ByPoint 0 (Responds False 500 (Inl NonError)) 51.5074 (- 0.1278)
          (initial_world 1000)) =
     Inl (Error ''HUC8 lookup failed: API request failed: 500'')
   \<and> includes_str ''HUC8 lookup failed: API request failed: 500'' ''500''"
proof -
  have s: "string_of_nat 500 = ''500''"
    by (simp add: string_of_nat.simps digit_char_def)
  have h1: "features \<lparr>features = Some []\<rparr> = None \<or> features \<lparr>features = Some []\<rparr> = Some []"
    by simp
  have h2: "fst (queryWBD 0 (Rejects (Error ''Failed to fetch'')) (point_params 51.5074 (- 0.1278))
                   (initial_world 1000)) = Inl (Error ''Failed to fetch'')"
    by (simp add: queryWBD_def Let_def)
  have h3: "\<forall>m. Error ''Failed to fetch'' = Error m \<longrightarrow> \<not> includes_str m ''No HUC8''"
    by simp
  show ?thesis
    using findHUC8ByPoint_failure_kinds
      [OF h1 h2 h3, where status = 200 and status' = 500 and body = "Inl NonError"]
    by (simp add: s message_or_def)
qed

text \<open>
  Claim C10. The \<open>catch\<close> of \<open>findHUC8ByPoint\<close> decides by the substring \<open>No HUC8\<close>:
  whatever the \<open>try\<close> block throws with such a message is rethrown as it is. So a
  network failure (\<open>fetch\<close> rejects) or a parse failure (\<open>response.json()\<close> rejects)
  with such a message is not wrapped into \<open>HUC8 lookup failed: ...\<close>.
\<close>

theorem no_huc8_marker_rethrown:
  assumes "includes_str m ''No HUC8''"
  shows "(fst (findHUC8ByPoint_try latency resp y x w) = Inl (Error m) \<longrightarrow>
            fst (findHUC8ByPoint latency resp y x w) = Inl (Error m))
       \<and> fst (findHUC8ByPoint latency (Rejects (Error m)) y x w) = Inl (Error m)
       \<and> fst (findHUC8ByPoint latency (Responds True status (Inl (Error m))) y x w) = Inl (Error m)
       \<and> Error m \<noteq> Error (''HUC8 lookup failed: '' @ m)"
proof -
  have a: "fst (findHUC8ByPoint_try latency resp y x w) = Inl (Error m) \<longrightarrow>
            fst (findHUC8ByPoint latency resp y x w) = Inl (Error m)"
    using assms findHUC8ByPoint_rethrow by blast
  have "fst (findHUC8ByPoint_try latency (Rejects (Error m)) y x w) = Inl (Error m)"
    by (simp add: findHUC8ByPoint_try_def queryWBD_def Let_def)
  then have b: "fst (findHUC8ByPoint latency (Rejects (Error m)) y x w) = Inl (Error m)"
    using assms by (rule findHUC8ByPoint_rethrow)
  have "fst (findHUC8ByPoint_try latency (Responds True status (Inl (Error m))) y x w) = Inl (Error m)"
    by (simp add: findHUC8ByPoint_try_def queryWBD_def Let_def)
  then have c: "fst (findHUC8ByPoint latency (Responds True status (Inl (Error m))) y x w) = Inl (Error m)"
    using assms by (rule findHUC8ByPoint_rethrow)
  have d: "Error m \<noteq> Error (''HUC8 lookup failed: '' @ m)" by simp
  show ?thesis using a b c d by blast
qed

theorem no_huc8_marker_rethrown_witness:
  "includes_str ''No HUC8 service reachable'' ''No HUC8''
   \<and> fst (findHUC8ByPoint 0 (Rejects (Error ''No HUC8 service reachable'')) 38.8977 (- 77.0365)
          (initial_world 1000)) =
     Inl (Error ''No HUC8 service reachable'')"
proof -
  have h: "includes_str ''No HUC8 service reachable'' ''No HUC8''" by simp
  show ?thesis
    using no_huc8_marker_rethrown
      [OF h, where latency = 0 and y = "38.8977" and x = "- 77.0365" and w = "initial_world 1000"]
      h
    by simp
qed

section \<open>The orchestrator\<close>

lemma handleSearch_blank:
  "trim (addressInput_value app) = [] \<Longrightarrow>
   handleSearch env app w = (showError ''Please enter an address or zip code.'' app, w)"
  by (simp add: handleSearch_def Let_def)

lemma handleSearch_run:
  "trim (addressInput_value app) \<noteq> [] \<Longrightarrow>
   handleSearch env app w =
     (case handleSearch_try env (trim (addressInput_value app)) (hideError (showLoading app)) w of
        (Inr app2, w1) \<Rightarrow> (hideLoading app2, w1)
      | (Inl error, w1) \<Rightarrow>
          (hideLoading (showError (message_or ''An unexpected error occurred.'' error)
             (hideError (showLoading app))), w1))"
  by (simp add: handleSearch_def Let_def)

lemma hideLoading_fields:
  "addressInput_disabled (hideLoading a) = False"
  "searchButton_disabled (hideLoading a) = False"
  "buttonText_hidden (hideLoading a) = False"
  "spinner_hidden (hideLoading a) = True"
  "errorMessage_text (hideLoading a) = errorMessage_text a"
  "errorMessage_hidden (hideLoading a) = errorMessage_hidden a"
  "mapController (hideLoading a) = mapController a"
  "currentHUC8 (hideLoading a) = currentHUC8 a"
  "hucCodeEl (hideLoading a) = hucCodeEl a"
  "hucNameEl (hideLoading a) = hucNameEl a"
  "hucStatesEl (hideLoading a) = hucStatesEl a"
  "hucAreaEl (hideLoading a) = hucAreaEl a"
  "adjacentListEl (hideLoading a) = adjacentListEl a"
  "resultsPanel_hidden (hideLoading a) = resultsPanel_hidden a"
  by (simp_all add: hideLoading_def)

lemma handleSearch_loading_cleared:
  assumes "trim (addressInput_value app) \<noteq> []"
  shows "addressInput_disabled (fst (handleSearch env app w)) = False
       \<and> searchButton_disabled (fst (handleSearch env app w)) = False
       \<and> buttonText_hidden (fst (handleSearch env app w)) = False
       \<and> spinner_hidden (fst (handleSearch env app w)) = True"
  unfolding handleSearch_run [OF assms]
  by (simp add: hideLoading_fields split: prod.split sum.split)

lemma handleSearch_shows_thrown:
  assumes "trim (addressInput_value app) \<noteq> []"
    and "fst (handleSearch_try env (trim (addressInput_value app)) (hideError (showLoading app)) w) = Inl e"
  shows "errorMessage_text (fst (handleSearch env app w)) = message_or ''An unexpected error occurred.'' e
       \<and> errorMessage_hidden (fst (handleSearch env app w)) = False"
  using assms(2) unfolding handleSearch_run [OF assms(1)]
  by (auto simp: hideLoading_fields showError_def split: prod.splits sum.splits)

lemma handleSearch_try_geocode_fails:
  "fst (geocodeAddress (parseFloat env) (timer_lag env) (geocode_latency env)
          (geocode_response env) q w) = Inl e \<Longrightarrow>
   fst (handleSearch_try env q a w) = Inl e"
  by (auto simp: handleSearch_try_def split: prod.splits sum.splits)

lemma handleSearch_try_point_fails:
  "geocodeAddress (parseFloat env) (timer_lag env) (geocode_latency env)
          (geocode_response env) q w = (Inr location, w1) \<Longrightarrow>
   fst (findHUC8ByPoint (point_latency env) (point_response env) (lat location) (lng location) w1) = Inl e \<Longrightarrow>
   fst (handleSearch_try env q a w) = Inl e"
  by (auto simp: handleSearch_try_def split: prod.splits sum.splits)

lemma handleSearch_try_adjacent_fails:
  "geocodeAddress (parseFloat env) (timer_lag env) (geocode_latency env)
          (geocode_response env) q w = (Inr location, w1) \<Longrightarrow>
   findHUC8ByPoint (point_latency env) (point_response env) (lat location) (lng location) w1 =
     (Inr huc8Feature, w2) \<Longrightarrow>
   fst (findAdjacentHUC8s (adjacent_latency env) (adjacent_response env) (geometry huc8Feature) w2) = Inl e \<Longrightarrow>
   fst (handleSearch_try env q a w) = Inl e"
  by (auto simp: handleSearch_try_def split: prod.splits sum.splits)

text \<open>
  Claim C4. When the trimmed query is not empty, so that the pipeline runs, the state that
  \<open>handleSearch\<close> leaves always has the input and the button enabled, the button text
  shown and the spinner hidden, whether the pipeline succeeded or failed. When a step fails
  with an \<open>Error\<close>, the error element is shown with exactly that error's message: the
  geocoder's, the boundary locator's (after a geocoding success) or the adjacency
  resolver's (after both). When the thrown value is not an \<open>Error\<close>, which only the
  geocoder can pass on, the text is \<open>An unexpected error occurred.\<close>
\<close>

theorem handleSearch_cleanup_and_message:
  assumes run: "trim (addressInput_value app) \<noteq> []"
  shows "addressInput_disabled (fst (handleSearch env app w)) = False
       \<and> searchButton_disabled (fst (handleSearch env app w)) = False
       \<and> buttonText_hidden (fst (handleSearch env app w)) = False
       \<and> spinner_hidden (fst (handleSearch env app w)) = True
       \<and> (fst (geocodeAddress (parseFloat env) (timer_lag env) (geocode_latency env)
                 (geocode_response env) (trim (addressInput_value app)) w) = Inl (Error m) \<longrightarrow>
            errorMessage_text (fst (handleSearch env app w)) = m
            \<and> errorMessage_hidden (fst (handleSearch env app w)) = False)
       \<and> (fst (geocodeAddress (parseFloat env) (timer_lag env) (geocode_latency env)
                 (geocode_response env) (trim (addressInput_value app)) w) = Inl NonError \<longrightarrow>
            errorMessage_text (fst (handleSearch env app w)) = ''An unexpected error occurred.''
            \<and> errorMessage_hidden (fst (handleSearch env app w)) = False)
       \<and> (geocodeAddress (parseFloat env) (timer_lag env) (geocode_latency env)
                 (geocode_response env) (trim (addressInput_value app)) w = (Inr location, w')
            \<and> fst (findHUC8ByPoint (point_latency env) (point_response env)
                      (lat location) (lng location) w') = Inl (Error m') \<longrightarrow>
            errorMessage_text (fst (handleSearch env app w)) = m'
            \<and> errorMessage_hidden (fst (handleSearch env app w)) = False)
       \<and> (geocodeAddress (parseFloat env) (timer_lag env) (geocode_latency env)
                 (geocode_response env) (trim (addressInput_value app)) w = (Inr location, w')
            \<and> findHUC8ByPoint (point_latency env) (point_response env)
                 (lat location) (lng location) w' = (Inr huc8Feature, w'')
            \<and> fst (findAdjacentHUC8s (adjacent_latency env) (adjacent_response env)
                      (geometry huc8Feature) w'') = Inl (Error m'') \<longrightarrow>
            errorMessage_text (fst (handleSearch env app w)) = m''
            \<and> errorMessage_hidden (fst (handleSearch env app w)) = False)"
proof -
  note shown = handleSearch_shows_thrown [OF run]
  have a: "addressInput_disabled (fst (handleSearch env app w)) = False
       \<and> searchButton_disabled (fst (handleSearch env app w)) = False
       \<and> buttonText_hidden (fst (handleSearch env app w)) = False
       \<and> spinner_hidden (fst (handleSearch env app w)) = True"
    using run by (rule handleSearch_loading_cleared)
  have b: "fst (geocodeAddress (parseFloat env) (timer_lag env) (geocode_latency env)
                 (geocode_response env) (trim (addressInput_value app)) w) = Inl (Error m) \<longrightarrow>
            errorMessage_text (fst (handleSearch env app w)) = m
            \<and> errorMessage_hidden (fst (handleSearch env app w)) = False"
  proof
    assume "fst (geocodeAddress (parseFloat env) (timer_lag env) (geocode_latency env)
                 (geocode_response env) (trim (addressInput_value app)) w) = Inl (Error m)"
    then have "fst (handleSearch_try env (trim (addressInput_value app))
                      (hideError (showLoading app)) w) = Inl (Error m)"
      by (rule handleSearch_try_geocode_fails)
    from shown [OF this]
    show "errorMessage_text (fst (handleSearch env app w)) = m
            \<and> errorMessage_hidden (fst (handleSearch env app w)) = False"
      by (simp add: message_or_def)
  qed
  have c: "fst (geocodeAddress (parseFloat env) (timer_lag env) (geocode_latency env)
                 (geocode_response env) (trim (addressInput_value app)) w) = Inl NonError \<longrightarrow>
            errorMessage_text (fst (handleSearch env app w)) = ''An unexpected error occurred.''
            \<and> errorMessage_hidden (fst (handleSearch env app w)) = False"
  proof
    assume "fst (geocodeAddress (parseFloat env) (timer_lag env) (geocode_latency env)
                 (geocode_response env) (trim (addressInput_value app)) w) = Inl NonError"
    then have "fst (handleSearch_try env (trim (addressInput_value app))
                      (hideError (showLoading app)) w) = Inl NonError"
      by (rule handleSearch_try_geocode_fails)
    from shown [OF this]
    show "errorMessage_text (fst (handleSearch env app w)) = ''An unexpected error occurred.''
            \<and> errorMessage_hidden (fst (handleSearch env app w)) = False"
      by (simp add: message_or_def)
  qed
  have d: "geocodeAddress (parseFloat env) (timer_lag env) (geocode_latency env)
                 (geocode_response env) (trim (addressInput_value app)) w = (Inr location, w')
            \<and> fst (findHUC8ByPoint (point_latency env) (point_response env)
                      (lat location) (lng location) w') = Inl (Error m') \<longrightarrow>
            errorMessage_text (fst (handleSearch env app w)) = m'
            \<and> errorMessage_hidden (fst (handleSearch env app w)) = False"
  proof
    assume h: "geocodeAddress (parseFloat env) (timer_lag env) (geocode_latency env)
                 (geocode_response env) (trim (addressInput_value app)) w = (Inr location, w')
            \<and> fst (findHUC8ByPoint (point_latency env) (point_response env)
                      (lat location) (lng location) w') = Inl (Error m')"
    have "fst (handleSearch_try env (trim (addressInput_value app))
                 (hideError (showLoading app)) w) = Inl (Error m')"
      using h handleSearch_try_point_fails by blast
    from shown [OF this]
    show "errorMessage_text (fst (handleSearch env app w)) = m'
            \<and> errorMessage_hidden (fst (handleSearch env app w)) = False"
      by (simp add: message_or_def)
  qed
  have e: "geocodeAddress (parseFloat env) (timer_lag env) (geocode_latency env)
                 (geocode_response env) (trim (addressInput_value app)) w = (Inr location, w')
            \<and> findHUC8ByPoint (point_latency env) (point_response env)
                 (lat location) (lng location) w' = (Inr huc8Feature, w'')
            \<and> fst (findAdjacentHUC8s (adjacent_latency env) (adjacent_response env)
                      (geometry huc8Feature) w'') = Inl (Error m'') \<longrightarrow>
            errorMessage_text (fst (handleSearch env app w)) = m''
            \<and> errorMessage_hidden (fst (handleSearch env app w)) = False"
  proof
    assume h: "geocodeAddress (parseFloat env) (timer_lag env) (geocode_latency env)
                 (geocode_response env) (trim (addressInput_value app)) w = (Inr location, w')
            \<and> findHUC8ByPoint (point_latency env) (point_response env)
                 (lat location) (lng location) w' = (Inr huc8Feature, w'')
            \<and> fst (findAdjacentHUC8s (adjacent_latency env) (adjacent_response env)
                      (geometry huc8Feature) w'') = Inl (Error m'')"
    have "fst (handleSearch_try env (trim (addressInput_value app))
                 (hideError (showLoading app)) w) = Inl (Error m'')"
      using h handleSearch_try_adjacent_fails by blast
    from shown [OF this]
    show "errorMessage_text (fst (handleSearch env app w)) = m''
            \<and> errorMessage_hidden (fst (handleSearch env app w)) = False"
      by (simp add: message_or_def)
  qed
  show ?thesis using a b c d e by blast
qed

theorem handleSearch_cleanup_and_message_witness:
  "trim (addressInput_value (idle_app ''  Washington '')) = ''Washington''
   \<and> errorMessage_text (fst (handleSearch boundary_down (idle_app ''  Washington '')
         (initial_world 7000))) = ''HUC8 lookup failed: API request failed: 500''
   \<and> errorMessage_hidden (fst (handleSearch boundary_down (idle_app ''  Washington '')
         (initial_world 7000))) = False
   \<and> spinner_hidden (fst (handleSearch boundary_down (idle_app ''  Washington '')
         (initial_world 7000))) = True
   \<and> addressInput_disabled (fst (handleSearch boundary_down (idle_app ''  Washington '')
         (initial_world 7000))) = False"
proof -
  let ?loc = "\<lparr>GeocodingResult.lat = 38.8977, lng = - 77.0365, displayName = ''Washington''\<rparr>"
  let ?w1 = "\<lparr>clock = 7040, lastRequestTime = 7000,
               requests = [NominatimGet 7000 (geocode_params ''Washington'')]\<rparr>"
  have s: "string_of_nat 500 = ''500''"
    by (simp add: string_of_nat.simps digit_char_def)
  have t: "trim (addressInput_value (idle_app ''  Washington '')) = ''Washington''"
    by (simp add: idle_app_def trim_def is_white_space_def)
  then have run: "trim (addressInput_value (idle_app ''  Washington '')) \<noteq> []" by simp
  have g: "geocodeAddress (parseFloat boundary_down) (timer_lag boundary_down)
             (geocode_latency boundary_down) (geocode_response boundary_down)
             (trim (addressInput_value (idle_app ''  Washington ''))) (initial_world 7000) =
           (Inr ?loc, ?w1)"
    unfolding t
    by (simp add: boundary_down_def geocodeAddress_def waitForRateLimit_def fetch_def
          initial_world_def Let_def)
  have p: "fst (findHUC8ByPoint (point_latency boundary_down) (point_response boundary_down)
                  (lat ?loc) (lng ?loc) ?w1) =
           Inl (Error ''HUC8 lookup failed: API request failed: 500'')"
    by (simp add: boundary_down_def findHUC8ByPoint_def findHUC8ByPoint_try_def queryWBD_def
          Let_def s)
  show ?thesis
    using handleSearch_cleanup_and_message
      [OF run, where env = boundary_down and w = "initial_world 7000" and location = ?loc
         and w' = ?w1 and m' = "''HUC8 lookup failed: API request failed: 500''"]
      g p t
    by simp
qed

text \<open>
  Claim C5. When every character of the submitted query is white space (the empty query
  included), \<open>handleSearch\<close> only shows the message \<open>Please enter an address or zip
  code.\<close>: no request is issued, the rate limiter is not touched, the loading indicator
  is not shown, and the map and the selection stay as they were.
\<close>

theorem blank_query_starts_nothing:
  assumes "\<forall>c \<in> set (addressInput_value app). is_white_space c"
  shows "handleSearch env app w = (showError ''Please enter an address or zip code.'' app, w)
       \<and> requests (snd (handleSearch env app w)) = requests w
       \<and> lastRequestTime (snd (handleSearch env app w)) = lastRequestTime w
       \<and> errorMessage_text (fst (handleSearch env app w)) = ''Please enter an address or zip code.''
       \<and> errorMessage_hidden (fst (handleSearch env app w)) = False
       \<and> spinner_hidden (fst (handleSearch env app w)) = spinner_hidden app
       \<and> mapController (fst (handleSearch env app w)) = mapController app
       \<and> currentHUC8 (fst (handleSearch env app w)) = currentHUC8 app"
proof -
  have "trim (addressInput_value app) = []"
    using assms by (simp add: trim_empty_iff)
  then have "handleSearch env app w = (showError ''Please enter an address or zip code.'' app, w)"
    by (rule handleSearch_blank)
  then show ?thesis by (simp add: showError_def)
qed

theorem blank_query_starts_nothing_witness:
  "handleSearch boundary_down (idle_app ''   '') (initial_world 7000) =
     (showError ''Please enter an address or zip code.'' (idle_app ''   ''), initial_world 7000)
   \<and> requests (snd (handleSearch boundary_down (idle_app ''   '') (initial_world 7000))) = []
   \<and> errorMessage_text (fst (handleSearch boundary_down (idle_app ''   '') (initial_world 7000))) =
       ''Please enter an address or zip code.''"
proof -
  have h: "\<forall>c \<in> set (addressInput_value (idle_app ''   '')). is_white_space c"
    by (simp add: idle_app_def is_white_space_def)
  have r: "requests (initial_world 7000) = []" by (simp add: initial_world_def)
  show ?thesis
    using blank_query_starts_nothing [OF h, of boundary_down "initial_world 7000"] r
    by (simp add: showError_def)
qed

lemma selectHUC8_world:
  "snd (selectHUC8 latency resp feature app w) =
     fetch (\<lambda>t. WbdPost t (adjacent_params (geometry feature))) latency w"
  using findAdjacentHUC8s_world [of latency resp "geometry feature" w]
  by (auto simp: selectHUC8_def selectHUC8_try_def Let_def split: prod.splits sum.splits)

lemma selectHUC8_success:
  assumes "fst (findAdjacentHUC8s latency resp (geometry feature) w) = Inr adj"
  shows "fst (selectHUC8 latency resp feature app w) =
     hideLoading
       ((updateAdjacentList adj
          (updateInfoPanel (properties feature)
             ((showLoading app)\<lparr>mapController :=
                displayAdjacentHUCs adj (Some CallSelectHUC8)
                  (displayPrimaryHUC feature None (clearAll (mapController app)))\<rparr>)))
        \<lparr>currentHUC8 := Some feature\<rparr>)"
  using assms
  by (auto simp: selectHUC8_def selectHUC8_try_def Let_def showLoading_def
      split: prod.splits sum.splits)

lemma selectHUC8_failure:
  assumes "fst (findAdjacentHUC8s latency resp (geometry feature) w) = Inl e"
  shows "fst (selectHUC8 latency resp feature app w) =
     hideLoading (showError (message_or ''Failed to load watershed.'' e) (showLoading app))"
  using assms
  by (auto simp: selectHUC8_def selectHUC8_try_def Let_def split: prod.splits sum.splits)

lemma findAdjacentHUC8s_throws_Error:
  "fst (findAdjacentHUC8s latency resp g w) = Inl e \<Longrightarrow>
   \<exists>m. e = Error (''Adjacent HUC8 lookup failed: '' @ m)"
  by (auto simp: findAdjacentHUC8s_def split: prod.splits sum.splits option.splits)

text \<open>
  Claim C8. \<open>selectHUC8\<close> issues exactly one request, the adjacency query for the
  geometry of the clicked feature, and leaves the rate limiter alone; it always ends with
  the loading indicator cleared. When the adjacency resolver succeeds, the clicked feature
  is the current one and the primary layer, the neighbour layers are exactly the returned
  features, each with the handler that selects it, the search marker is gone, the info
  panel and the neighbour list show the new selection, and a click on a new neighbour
  (on the map or in the list) runs \<open>selectHUC8\<close> on it. When the resolver fails, its
  message is shown and the current feature, the map, the info panel, the neighbour list
  and the results panel are what they were.
\<close>

theorem selectHUC8_replaces_selection:
  "requests (snd (selectHUC8 latency resp feature app w)) =
     requests w @ [WbdPost (clock w) (adjacent_params (geometry feature))]
   \<and> lastRequestTime (snd (selectHUC8 latency resp feature app w)) = lastRequestTime w
   \<and> spinner_hidden (fst (selectHUC8 latency resp feature app w)) = True
   \<and> addressInput_disabled (fst (selectHUC8 latency resp feature app w)) = False
   \<and> (fst (findAdjacentHUC8s latency resp (geometry feature) w) = Inr adj \<longrightarrow>
        currentHUC8 (fst (selectHUC8 latency resp feature app w)) = Some feature
        \<and> primaryHUCLayer (mapController (fst (selectHUC8 latency resp feature app w))) =
            Some (feature, None)
        \<and> adjacentHUCLayer (mapController (fst (selectHUC8 latency resp feature app w))) =
            map (\<lambda>f. (f, Some CallSelectHUC8)) adj
        \<and> markerLayer (mapController (fst (selectHUC8 latency resp feature app w))) = []
        \<and> hucCodeEl (fst (selectHUC8 latency resp feature app w)) = huc8 (properties feature)
        \<and> hucNameEl (fst (selectHUC8 latency resp feature app w)) = name (properties feature)
        \<and> hucStatesEl (fst (selectHUC8 latency resp feature app w)) = states (properties feature)
        \<and> hucAreaEl (fst (selectHUC8 latency resp feature app w)) =
            (case areaacres (properties feature) of
               None \<Rightarrow> Dashes
             | Some a \<Rightarrow> if a = 0 then Dashes else Acres a)
        \<and> adjacentListEl (fst (selectHUC8 latency resp feature app w)) =
            (if adj = [] then NoAdjacentItem else AdjacentButtons adj)
        \<and> (i < length adj \<longrightarrow>
             click_adjacent_layer latency' resp' i (fst (selectHUC8 latency resp feature app w)) w' =
               selectHUC8 latency' resp' (adj ! i) (fst (selectHUC8 latency resp feature app w)) w')
        \<and> (find (\<lambda>f. huc8 (properties f) = hucCode) adj = Some g \<longrightarrow>
             click_adjacent_button latency' resp' hucCode
                 (fst (selectHUC8 latency resp feature app w)) w' =
               selectHUC8 latency' resp' g (fst (selectHUC8 latency resp feature app w)) w'))
   \<and> (fst (findAdjacentHUC8s latency resp (geometry feature) w) = Inl (Error m) \<longrightarrow>
        errorMessage_text (fst (selectHUC8 latency resp feature app w)) = m
        \<and> errorMessage_hidden (fst (selectHUC8 latency resp feature app w)) = False
        \<and> currentHUC8 (fst (selectHUC8 latency resp feature app w)) = currentHUC8 app
        \<and> mapController (fst (selectHUC8 latency resp feature app w)) = mapController app
        \<and> hucCodeEl (fst (selectHUC8 latency resp feature app w)) = hucCodeEl app
        \<and> hucNameEl (fst (selectHUC8 latency resp feature app w)) = hucNameEl app
        \<and> hucStatesEl (fst (selectHUC8 latency resp feature app w)) = hucStatesEl app
        \<and> hucAreaEl (fst (selectHUC8 latency resp feature app w)) = hucAreaEl app
        \<and> adjacentListEl (fst (selectHUC8 latency resp feature app w)) = adjacentListEl app
        \<and> resultsPanel_hidden (fst (selectHUC8 latency resp feature app w)) =
            resultsPanel_hidden app)"
proof -
  let ?app' = "fst (selectHUC8 latency resp feature app w)"
  have a: "requests (snd (selectHUC8 latency resp feature app w)) =
             requests w @ [WbdPost (clock w) (adjacent_params (geometry feature))]
           \<and> lastRequestTime (snd (selectHUC8 latency resp feature app w)) = lastRequestTime w"
    by (simp add: selectHUC8_world fetch_def)
  have b: "spinner_hidden ?app' = True \<and> addressInput_disabled ?app' = False"
    by (simp add: selectHUC8_def Let_def hideLoading_fields split: prod.split sum.split)
  have c: "currentHUC8 ?app' = Some feature
        \<and> primaryHUCLayer (mapController ?app') = Some (feature, None)
        \<and> adjacentHUCLayer (mapController ?app') = map (\<lambda>f. (f, Some CallSelectHUC8)) adj
        \<and> markerLayer (mapController ?app') = []
        \<and> hucCodeEl ?app' = huc8 (properties feature)
        \<and> hucNameEl ?app' = name (properties feature)
        \<and> hucStatesEl ?app' = states (properties feature)
        \<and> hucAreaEl ?app' =
            (case areaacres (properties feature) of
               None \<Rightarrow> Dashes
             | Some a \<Rightarrow> if a = 0 then Dashes else Acres a)
        \<and> adjacentListEl ?app' = (if adj = [] then NoAdjacentItem else AdjacentButtons adj)"
    if "fst (findAdjacentHUC8s latency resp (geometry feature) w) = Inr adj"
    unfolding selectHUC8_success [OF that]
    by (simp add: hideLoading_fields updateAdjacentList_def updateInfoPanel_def
          displayAdjacentHUCs_def displayPrimaryHUC_def clearAll_def)
  have d: "click_adjacent_layer latency' resp' i ?app' w' = selectHUC8 latency' resp' (adj ! i) ?app' w'"
    if "fst (findAdjacentHUC8s latency resp (geometry feature) w) = Inr adj" and "i < length adj"
    using c [OF that(1)] that(2) by (simp add: click_adjacent_layer_def)
  have e: "click_adjacent_button latency' resp' hucCode ?app' w' = selectHUC8 latency' resp' g ?app' w'"
    if "fst (findAdjacentHUC8s latency resp (geometry feature) w) = Inr adj"
      and "find (\<lambda>f. huc8 (properties f) = hucCode) adj = Some g"
  proof -
    have "adj \<noteq> []" using that(2) by auto
    then have "adjacentListEl ?app' = AdjacentButtons adj" using c [OF that(1)] by simp
    then show ?thesis using that(2) by (simp add: click_adjacent_button_def)
  qed
  have f: "errorMessage_text ?app' = m
        \<and> errorMessage_hidden ?app' = False
        \<and> currentHUC8 ?app' = currentHUC8 app
        \<and> mapController ?app' = mapController app
        \<and> hucCodeEl ?app' = hucCodeEl app
        \<and> hucNameEl ?app' = hucNameEl app
        \<and> hucStatesEl ?app' = hucStatesEl app
        \<and> hucAreaEl ?app' = hucAreaEl app
        \<and> adjacentListEl ?app' = adjacentListEl app
        \<and> resultsPanel_hidden ?app' = resultsPanel_hidden app"
    if "fst (findAdjacentHUC8s latency resp (geometry feature) w) = Inl (Error m)"
    unfolding selectHUC8_failure [OF that]
    by (simp add: hideLoading_fields showError_def showLoading_def message_or_def)
  show ?thesis using a b c d e f by blast
qed

theorem selectHUC8_replaces_selection_witness:
  "fst (findAdjacentHUC8s 25 (Responds True 200 (Inr \<lparr>features = Some [mockHUC8Feature]\<rparr>))
          (geometry mockAdjacentFeature) (initial_world 9000)) = Inr [mockHUC8Feature]
   \<and> currentHUC8 (fst (selectHUC8 25
         (Responds True 200 (Inr \<lparr>features = Some [mockHUC8Feature]\<rparr>))
         mockAdjacentFeature results_shown_app (initial_world 9000))) = Some mockAdjacentFeature
   \<and> adjacentHUCLayer (mapController (fst (selectHUC8 25
         (Responds True 200 (Inr \<lparr>features = Some [mockHUC8Feature]\<rparr>))
         mockAdjacentFeature results_shown_app (initial_world 9000)))) =
       [(mockHUC8Feature, Some CallSelectHUC8)]
   \<and> requests (snd (selectHUC8 25
         (Responds True 200 (Inr \<lparr>features = Some [mockHUC8Feature]\<rparr>))
         mockAdjacentFeature results_shown_app (initial_world 9000))) =
       [WbdPost 9000 (adjacent_params (geometry mockAdjacentFeature))]
   \<and> fst (findAdjacentHUC8s 25 (Responds False 500 (Inl NonError))
          (geometry mockAdjacentFeature) (initial_world 9000)) =
       Inl (Error ''Adjacent HUC8 lookup failed: API request failed: 500'')
   \<and> errorMessage_text (fst (selectHUC8 25 (Responds False 500 (Inl NonError))
         mockAdjacentFeature results_shown_app (initial_world 9000))) =
       ''Adjacent HUC8 lookup failed: API request failed: 500''
   \<and> currentHUC8 (fst (selectHUC8 25 (Responds False 500 (Inl NonError))
         mockAdjacentFeature results_shown_app (initial_world 9000))) = Some mockHUC8Feature
   \<and> mapController (fst (selectHUC8 25 (Responds False 500 (Inl NonError))
         mockAdjacentFeature results_shown_app (initial_world 9000))) =
       mapController results_shown_app"
proof -
  have s: "string_of_nat 500 = ''500''"
    by (simp add: string_of_nat.simps digit_char_def)
  have ok: "fst (findAdjacentHUC8s 25
                  (Responds True 200 (Inr \<lparr>features = Some [mockHUC8Feature]\<rparr>))
                  (geometry mockAdjacentFeature) (initial_world 9000)) = Inr [mockHUC8Feature]"
    by (simp add: findAdjacentHUC8s_def queryWBD_def Let_def)
  have ko: "fst (findAdjacentHUC8s 25 (Responds False 500 (Inl NonError))
                  (geometry mockAdjacentFeature) (initial_world 9000)) =
              Inl (Error ''Adjacent HUC8 lookup failed: API request failed: 500'')"
    by (simp add: findAdjacentHUC8s_def queryWBD_def Let_def message_or_def s)
  have c: "currentHUC8 results_shown_app = Some mockHUC8Feature"
    by (simp add: results_shown_app_def displayResults_def Let_def updateAdjacentList_def)
  have i: "clock (initial_world 9000) = 9000 \<and> requests (initial_world 9000) = []"
    by (simp add: initial_world_def)
  show ?thesis
    using selectHUC8_replaces_selection
      [where latency = 25
         and resp = "Responds True 200 (Inr \<lparr>features = Some [mockHUC8Feature]\<rparr>)"
         and feature = mockAdjacentFeature and app = results_shown_app
         and w = "initial_world 9000" and adj = "[mockHUC8Feature]"]
      selectHUC8_replaces_selection
      [where latency = 25 and resp = "Responds False 500 (Inl NonError)"
         and feature = mockAdjacentFeature and app = results_shown_app
         and w = "initial_world 9000"
         and m = "''Adjacent HUC8 lookup failed: API request failed: 500''"]
      ok ko c i
    by simp
qed

end
